theory Spec2Isabelle
  imports Complex_Main "HOL-Library.Word"
begin

unbundle bit_operations_syntax

section \<open>goresize: the image-resizing caching proxy of img.go\<close>

text \<open>
  A shallow embedding of \<^verbatim>\<open>src/img.go\<close>. Go strings and byte slices are both byte
  sequences and are modelled as \<open>string\<close>; Go's \<open>int\<close> and \<open>int64\<close> are modelled as
  \<open>int\<close> (the only arithmetic on them, \<open>width * height\<close> of two values that
  \<open>ParseInt\<close> has limited to 32 bits, cannot overflow 64 bits).

  The functions of img.go act on two external stores (redis and the cache directory),
  start goroutines, and call the origin server and the image codecs. The stores, the
  clock, the goroutines started but not yet run, and a log of the external calls made are
  the fields of one record \<open>world\<close> that every function takes and returns. The origin
  server, the codecs and the date format are the fields of a record \<open>env\<close>.
\<close>

subsection \<open>Data\<close>

text \<open>\<^verbatim>\<open>type Headers struct\<close> and its zero value.\<close>

record Headers =
  contentType :: string
  lastModified :: string
  cacheControl :: string

definition zeroHeaders :: Headers where
  "zeroHeaders = \<lparr>contentType = [], lastModified = [], cacheControl = []\<rparr>"

text \<open>\<^verbatim>\<open>const maxSize = 5 * (1 << 20)\<close>\<close>

definition maxSize :: int where
  "maxSize = 5 * 2 ^ 20"

text \<open>
  The values of Go's \<open>error\<close> that the pipeline produces, one constructor for each place
  an error is made, and \<open>Error\<close> for the method \<open>err.Error()\<close>.
\<close>

datatype error =
    Recorded string           \<comment> \<open>urlStatus: \<open>errors.New(str)\<close>, str read from redis\<close>
  | FetchError string         \<comment> \<open>\<open>client.Get\<close> failed\<close>
  | ReadError string          \<comment> \<open>\<open>ioutil.ReadAll\<close> failed\<close>
  | UnexpectedStatus          \<comment> \<open>\<open>errors.New("Unexpected status code")\<close>\<close>
  | ExceededMaxSize           \<comment> \<open>\<open>errors.New("Exceeded max size")\<close>\<close>
  | InvalidContentType        \<comment> \<open>\<open>errors.New("Invalid content-type")\<close>\<close>
  | DecodeError string        \<comment> \<open>\<open>image.Decode\<close> failed\<close>
  | EncodeError string        \<comment> \<open>\<open>png.Encode\<close> failed\<close>

fun Error :: "error \<Rightarrow> string" where
  "Error (Recorded m) = m"
| "Error (FetchError m) = m"
| "Error (ReadError m) = m"
| "Error UnexpectedStatus = ''Unexpected status code''"
| "Error ExceededMaxSize = ''Exceeded max size''"
| "Error InvalidContentType = ''Invalid content-type''"
| "Error (DecodeError m) = m"
| "Error (EncodeError m) = m"

text \<open>A call either returns or panics (a Go run-time panic unwinds through every caller).\<close>

datatype 'a outcome = Return 'a | Panic string

text \<open>What \<open>client.Get\<close> gives: an error, or a response whose body is then read.\<close>

record response =
  StatusCode :: int
  ContentLength :: int           \<comment> \<open>the declared length, \<open>-1\<close> when the origin declares none\<close>
  ContentTypeHeader :: string    \<comment> \<open>\<open>res.Header.Get("Content-Type")\<close>, empty when absent\<close>
  bodyRead :: string             \<comment> \<open>the bytes \<open>ioutil.ReadAll\<close> returns\<close>
  bodyErr :: "string option"     \<comment> \<open>the error \<open>ioutil.ReadAll\<close> returns, if any\<close>

datatype get_result = GetFailed string | GetResponse response

text \<open>Redis: one key space; a key holds a string or a hash, and may carry an expiry time.\<close>

datatype redis_value = RString string | RHash "string \<Rightarrow> string option"

text \<open>The cache directory: a path holds a regular file (bytes, modification time) or a directory.\<close>

datatype node = RegFile string nat | Directory nat

text \<open>The goroutines of \<open>saveImageInCache\<close> and \<open>saveErrorInCache\<close>, with the variables they capture.\<close>

datatype task =
    SaveImage string string Headers string   \<comment> \<open>uri, variation, headers, body\<close>
  | SaveError string error                   \<comment> \<open>uri, err\<close>

text \<open>The external calls, logged in the order they are made.\<close>

datatype event =
    RedisRead string        \<comment> \<open>\<open>connection.Get\<close> or \<open>connection.Hget\<close> on this key\<close>
  | DiskStat string         \<comment> \<open>\<open>os.Stat\<close>\<close>
  | DiskRead string         \<comment> \<open>\<open>ioutil.ReadFile\<close>\<close>
  | OriginGet string        \<comment> \<open>\<open>client.Get\<close>\<close>
  | ImageDecode             \<comment> \<open>\<open>image.Decode\<close>\<close>
  | ResampleTo int int      \<comment> \<open>\<open>Resample(m, m.Bounds(), newWidth, newHeight)\<close>\<close>
  | PngEncode               \<comment> \<open>\<open>png.Encode\<close>\<close>

record world =
  redis :: "string \<Rightarrow> (redis_value \<times> nat option) option"
  disk :: "string \<Rightarrow> node option"
  clock :: nat                       \<comment> \<open>seconds\<close>
  spawned :: "task list"             \<comment> \<open>goroutines started and not yet run\<close>
  calls :: "event list"

record 'img env =
  directory :: string                              \<comment> \<open>\<^verbatim>\<open>var directory string\<close>\<close>
  clientGet :: "string \<Rightarrow> get_result"              \<comment> \<open>the origin server\<close>
  imageDecode :: "string \<Rightarrow> string + 'img"         \<comment> \<open>\<open>image.Decode\<close>\<close>
  imageDx :: "'img \<Rightarrow> int"                         \<comment> \<open>\<open>m.Bounds().Dx()\<close>\<close>
  imageDy :: "'img \<Rightarrow> int"                         \<comment> \<open>\<open>m.Bounds().Dy()\<close>\<close>
  resample :: "'img \<Rightarrow> int \<Rightarrow> int \<Rightarrow> 'img outcome" \<comment> \<open>\<open>Resample\<close>, defined outside img.go\<close>
  pngEncode :: "'img \<Rightarrow> (string + string) outcome" \<comment> \<open>\<open>png.Encode\<close>\<close>
  rfc1123 :: "nat \<Rightarrow> string"                       \<comment> \<open>\<open>t.Format(time.RFC1123)\<close>\<close>
  intOfNonInt :: int                               \<comment> \<open>what \<open>int(f)\<close> gives for NaN and infinities\<close>

definition logCall :: "event \<Rightarrow> world \<Rightarrow> world" where
  "logCall ev s = s\<lparr>calls := calls s @ [ev]\<rparr>"

subsection \<open>Redis commands\<close>

text \<open>A key whose expiry time has been reached is gone.\<close>

definition redisLookup :: "world \<Rightarrow> string \<Rightarrow> (redis_value \<times> nat option) option" where
  "redisLookup s key =
     (case redis s key of
        None \<Rightarrow> None
      | Some (v, None) \<Rightarrow> Some (v, None)
      | Some (v, Some t) \<Rightarrow> if clock s < t then Some (v, Some t) else None)"

text \<open>\<open>connection.Get(key).Str()\<close>: an error (here \<open>None\<close>) unless the key holds a string.\<close>

definition redisGet :: "string \<Rightarrow> world \<Rightarrow> string option \<times> world" where
  "redisGet key s =
     ((case redisLookup s key of Some (RString v, _) \<Rightarrow> Some v | _ \<Rightarrow> None),
      logCall (RedisRead key) s)"

text \<open>\<open>connection.Hget(key, field).Str()\<close>: an error unless the key holds a hash with that field.\<close>

definition redisHget :: "string \<Rightarrow> string \<Rightarrow> world \<Rightarrow> string option \<times> world" where
  "redisHget key field s =
     ((case redisLookup s key of Some (RHash h, _) \<Rightarrow> h field | _ \<Rightarrow> None),
      logCall (RedisRead key) s)"

text \<open>\<open>SET\<close> replaces whatever the key held and drops its expiry.\<close>

definition redisSet :: "string \<Rightarrow> string \<Rightarrow> world \<Rightarrow> world" where
  "redisSet key v s = s\<lparr>redis := (redis s)(key \<mapsto> (RString v, None))\<rparr>"

text \<open>\<open>EXPIRE\<close> sets the expiry of an existing key.\<close>

definition redisExpire :: "string \<Rightarrow> nat \<Rightarrow> world \<Rightarrow> world" where
  "redisExpire key secs s =
     (case redisLookup s key of
        None \<Rightarrow> s
      | Some (v, _) \<Rightarrow> s\<lparr>redis := (redis s)(key \<mapsto> (v, Some (clock s + secs)))\<rparr>)"

text \<open>\<open>HSET\<close> creates the hash or sets the field; on a string key it is an error reply, which
  img.go ignores.\<close>

definition redisHset :: "string \<Rightarrow> string \<Rightarrow> string \<Rightarrow> world \<Rightarrow> world" where
  "redisHset key field v s =
     (case redisLookup s key of
        None \<Rightarrow> s\<lparr>redis := (redis s)(key \<mapsto> (RHash (Map.empty(field \<mapsto> v)), None))\<rparr>
      | Some (RHash h, t) \<Rightarrow> s\<lparr>redis := (redis s)(key \<mapsto> (RHash (h(field \<mapsto> v)), t))\<rparr>
      | Some (RString _, _) \<Rightarrow> s)"

subsection \<open>File system calls\<close>

text \<open>\<open>os.Stat\<close>: the modification time, or an error when nothing is at the path.\<close>

definition osStat :: "string \<Rightarrow> world \<Rightarrow> nat option \<times> world" where
  "osStat p s =
     ((case disk s p of None \<Rightarrow> None | Some (RegFile _ t) \<Rightarrow> Some t | Some (Directory t) \<Rightarrow> Some t),
      logCall (DiskStat p) s)"

text \<open>\<open>ioutil.ReadFile\<close>: fails on a missing path and on a directory.\<close>

definition ReadFile :: "string \<Rightarrow> world \<Rightarrow> string option \<times> world" where
  "ReadFile p s =
     ((case disk s p of Some (RegFile b _) \<Rightarrow> Some b | _ \<Rightarrow> None),
      logCall (DiskRead p) s)"

text \<open>The prefixes of a path that end just before a \<open>/\<close>, shortest first, and the path itself.\<close>

fun ancestors :: "string \<Rightarrow> string \<Rightarrow> string list" where
  "ancestors acc [] = (if acc = [] then [] else [acc])"
| "ancestors acc (c # cs) =
     (if c = CHR ''/'' \<and> acc \<noteq> [] then acc # ancestors (acc @ [c]) cs
      else ancestors (acc @ [c]) cs)"

text \<open>\<open>os.MkdirAll\<close>: creates the missing directories from the top; fails at a component that
  is a regular file, keeping what it has created.\<close>

fun mkdirs :: "string list \<Rightarrow> world \<Rightarrow> bool \<times> world" where
  "mkdirs [] s = (True, s)"
| "mkdirs (d # ds) s =
     (case disk s d of
        Some (RegFile _ _) \<Rightarrow> (False, s)
      | Some (Directory _) \<Rightarrow> mkdirs ds s
      | None \<Rightarrow> mkdirs ds (s\<lparr>disk := (disk s)(d \<mapsto> Directory (clock s))\<rparr>))"

definition MkdirAll :: "string \<Rightarrow> world \<Rightarrow> bool \<times> world" where
  "MkdirAll p s = mkdirs (ancestors [] p) s"

text \<open>\<open>path.Dir\<close> of a path with a slash in it: what is before the last slash.\<close>

definition pathDir :: "string \<Rightarrow> string" where
  "pathDir p = rev (tl (dropWhile (\<lambda>c. c \<noteq> CHR ''/'') (rev p)))"

text \<open>\<open>ioutil.WriteFile\<close>: needs the parent directory, and fails on a directory.\<close>

definition WriteFile :: "string \<Rightarrow> string \<Rightarrow> world \<Rightarrow> bool \<times> world" where
  "WriteFile p b s =
     (case disk s (pathDir p) of
        Some (Directory _) \<Rightarrow>
          (case disk s p of
             Some (Directory _) \<Rightarrow> (False, s)
           | _ \<Rightarrow> (True, s\<lparr>disk := (disk s)(p \<mapsto> RegFile b (clock s))\<rparr>))
      | _ \<Rightarrow> (False, s))"

subsection \<open>Formatting\<close>

definition hexDigit :: "nat \<Rightarrow> char" where
  "hexDigit n = ''0123456789abcdef'' ! (n mod 16)"

text \<open>\<open>%x\<close> of a byte slice: two lower-case hex digits for each byte.\<close>

definition hexBytes :: "string \<Rightarrow> string" where
  "hexBytes bs = concat (map (\<lambda>c. [hexDigit (of_char c div 16), hexDigit (of_char c mod 16)]) bs)"

text \<open>\<open>%d\<close> of an int.\<close>

fun showNat :: "nat \<Rightarrow> string" where
  "showNat n = (if n < 10 then [hexDigit n] else showNat (n div 10) @ [hexDigit (n mod 10)])"

declare showNat.simps [simp del]

definition showInt :: "int \<Rightarrow> string" where
  "showInt i = (if i < 0 then CHR ''-'' # showNat (nat (- i)) else showNat (nat i))"

subsection \<open>IEEE 754 double precision, as far as \<open>resizeImage\<close> uses it\<close>

text \<open>
  A \<open>float64\<close> is a signed magnitude (an exact real number; zero has a sign), an infinity or
  NaN. Every operation computes the exact result and rounds it to the nearest double,
  ties to even, as the hardware does.
\<close>

datatype f64 = Fin bool real | Inf bool | NaN    \<comment> \<open>the flag is the sign bit\<close>

fun bitlen :: "nat \<Rightarrow> nat" where
  "bitlen n = (if n = 0 then 0 else 1 + bitlen (n div 2))"

declare bitlen.simps [simp del]

text \<open>\<open>\<lfloor>log\<^sub>2 q\<rfloor>\<close> for \<open>q > 0\<close>.\<close>

definition flog2 :: "real \<Rightarrow> int" where
  "flog2 q = (if 1 \<le> q then int (bitlen (nat \<lfloor>q\<rfloor>)) - 1
              else - int (bitlen (nat (\<lceil>1 / q\<rceil> - 1))))"

definition pow2 :: "int \<Rightarrow> real" where
  "pow2 p = (if 0 \<le> p then 2 ^ nat p else 1 / 2 ^ nat (- p))"

text \<open>Rounding to the nearest integer, ties to even.\<close>

definition roundHalfEven :: "real \<Rightarrow> int" where
  "roundHalfEven m =
     (if m - of_int \<lfloor>m\<rfloor> < 1 / 2 then \<lfloor>m\<rfloor>
      else if 1 / 2 < m - of_int \<lfloor>m\<rfloor> then \<lfloor>m\<rfloor> + 1
      else if even \<lfloor>m\<rfloor> then \<lfloor>m\<rfloor> else \<lfloor>m\<rfloor> + 1)"

text \<open>The nearest number with a 53-bit significand and an exponent of at least \<open>-1074\<close>,
  for \<open>q > 0\<close>.\<close>

definition roundPos :: "real \<Rightarrow> real" where
  "roundPos q = of_int (roundHalfEven (q / pow2 (max (flog2 q - 52) (- 1074)))) * pow2 (max (flog2 q - 52) (- 1074))"

definition roundMag :: "bool \<Rightarrow> real \<Rightarrow> f64" where
  "roundMag neg q =
     (if q = 0 then Fin neg 0
      else if 2 ^ 1024 \<le> roundPos q then Inf neg
      else Fin neg (roundPos q))"

text \<open>\<open>float64(i)\<close>\<close>

definition f64_of_int :: "int \<Rightarrow> f64" where
  "f64_of_int i = roundMag (i < 0) (of_int \<bar>i\<bar>)"

text \<open>\<open>x / y\<close>\<close>

fun f64_div :: "f64 \<Rightarrow> f64 \<Rightarrow> f64" where
  "f64_div (Fin s a) (Fin t b) =
     (if b = 0 then (if a = 0 then NaN else Inf (s \<noteq> t)) else roundMag (s \<noteq> t) (a / b))"
| "f64_div (Fin s a) (Inf t) = Fin (s \<noteq> t) 0"
| "f64_div (Inf s) (Fin t b) = Inf (s \<noteq> t)"
| "f64_div (Inf s) (Inf t) = NaN"
| "f64_div NaN y = NaN"
| "f64_div x NaN = NaN"

text \<open>The order of \<open>x < y\<close> on floats: false when either is NaN; the two zeros are equal.\<close>

fun f64_rank :: "f64 \<Rightarrow> int \<times> real" where
  "f64_rank (Fin s a) = (0, if s then - a else a)"
| "f64_rank (Inf s) = (if s then - 1 else 1, 0)"
| "f64_rank NaN = (0, 0)"

definition f64_less :: "f64 \<Rightarrow> f64 \<Rightarrow> bool" where
  "f64_less x y =
     (x \<noteq> NaN \<and> y \<noteq> NaN \<and>
      (fst (f64_rank x) < fst (f64_rank y) \<or>
       (fst (f64_rank x) = fst (f64_rank y) \<and> snd (f64_rank x) < snd (f64_rank y))))"

fun f64_isZero :: "f64 \<Rightarrow> bool" where
  "f64_isZero (Fin s a) = (a = 0)"
| "f64_isZero _ = False"

fun Signbit :: "f64 \<Rightarrow> bool" where
  "Signbit (Fin s a) = s"
| "Signbit (Inf s) = s"
| "Signbit NaN = False"

text \<open>\<open>math.Max\<close> and \<open>math.Min\<close>, with the special cases of the Go library in its order.\<close>

definition f64_Max :: "f64 \<Rightarrow> f64 \<Rightarrow> f64" where
  "f64_Max x y =
     (if x = Inf False \<or> y = Inf False then Inf False
      else if x = NaN \<or> y = NaN then NaN
      else if f64_isZero x \<and> f64_isZero y then (if Signbit x then y else x)
      else if f64_less y x then x else y)"

definition f64_Min :: "f64 \<Rightarrow> f64 \<Rightarrow> f64" where
  "f64_Min x y =
     (if x = Inf True \<or> y = Inf True then Inf True
      else if x = NaN \<or> y = NaN then NaN
      else if f64_isZero x \<and> f64_isZero y then (if Signbit x then x else y)
      else if f64_less x y then x else y)"

text \<open>\<open>math.Floor\<close>\<close>

fun f64_Floor :: "f64 \<Rightarrow> f64" where
  "f64_Floor (Fin s a) = (if s then Fin True (of_int \<lceil>a\<rceil>) else Fin False (of_int \<lfloor>a\<rfloor>))"
| "f64_Floor x = x"

text \<open>\<open>int(f)\<close>: truncation; the Go specification leaves the result to the implementation
  when the value does not fit an \<open>int\<close>, and \<open>d\<close> stands for that result.\<close>

fun f64_to_int :: "int \<Rightarrow> f64 \<Rightarrow> int" where
  "f64_to_int d (Fin s a) =
     (if s then (if \<lfloor>a\<rfloor> \<le> 2 ^ 63 then - \<lfloor>a\<rfloor> else d)
      else (if \<lfloor>a\<rfloor> < 2 ^ 63 then \<lfloor>a\<rfloor> else d))"
| "f64_to_int d x = d"

text \<open>The two new dimensions of \<open>resizeImage\<close>:
  \<^verbatim>\<open>ratio := math.Max(float64(origWidth), float64(origHeight)) / math.Min(float64(width), float64(height))\<close>
  \<^verbatim>\<open>newWidth := int(math.Floor(float64(origWidth) / ratio))\<close>\<close>

definition resizeRatio :: "int \<Rightarrow> int \<Rightarrow> int \<Rightarrow> int \<Rightarrow> f64" where
  "resizeRatio origWidth origHeight width height =
     f64_div (f64_Max (f64_of_int origWidth) (f64_of_int origHeight))
             (f64_Min (f64_of_int width) (f64_of_int height))"

definition newSize :: "int \<Rightarrow> int \<Rightarrow> f64 \<Rightarrow> int" where
  "newSize d orig ratio = f64_to_int d (f64_Floor (f64_div (f64_of_int orig) ratio))"

subsection \<open>SHA-1\<close>

text \<open>
  \<open>crypto/sha1\<close>, after FIPS 180: the message is padded with \<open>0x80\<close>, zeros and its length
  in bits to a multiple of 64 bytes, read as big-endian 32-bit words, and each block of 16
  words goes through 80 rounds on a state of five words. Bytes are held in 32-bit words
  while they are combined.
\<close>

type_synonym u32 = "32 word"

type_synonym sha_state = "u32 \<times> u32 \<times> u32 \<times> u32 \<times> u32"

definition rotl :: "nat \<Rightarrow> u32 \<Rightarrow> u32" where
  "rotl n x = push_bit n x OR drop_bit (32 - n) x"

fun len :: "'a list \<Rightarrow> nat" where
  "len [] = 0"
| "len (x # xs) = 1 + len xs"

fun zeros :: "nat \<Rightarrow> u32 list" where
  "zeros 0 = []"
| "zeros (Suc n) = 0 # zeros n"

definition lengthBytes :: "nat \<Rightarrow> u32 list" where
  "lengthBytes bits = map (\<lambda>i. of_nat ((bits div 2 ^ (8 * (7 - i))) mod 256)) [0, 1, 2, 3, 4, 5, 6, 7]"

definition padded :: "string \<Rightarrow> u32 list" where
  "padded str = map of_char str @ [0x80] @ zeros ((119 - len str mod 64) mod 64) @ lengthBytes (8 * len str)"

fun bigEndian :: "u32 list \<Rightarrow> u32 list" where
  "bigEndian (a # b # c # d # r) = (push_bit 24 a OR push_bit 16 b OR push_bit 8 c OR d) # bigEndian r"
| "bigEndian _ = []"

text \<open>The message schedule, from the last 16 words, newest first:
  \<open>w\<^sub>t = rotl 1 (w\<^sub>t\<^sub>-\<^sub>3 XOR w\<^sub>t\<^sub>-\<^sub>8 XOR w\<^sub>t\<^sub>-\<^sub>1\<^sub>4 XOR w\<^sub>t\<^sub>-\<^sub>1\<^sub>6)\<close>.\<close>

definition nextWord :: "u32 list \<Rightarrow> u32" where
  "nextWord win = rotl 1 (win ! 2 XOR win ! 7 XOR win ! 13 XOR win ! 15)"

fun schedule :: "nat \<Rightarrow> u32 list \<Rightarrow> u32 list" where
  "schedule 0 win = []"
| "schedule (Suc n) win = nextWord win # schedule n (nextWord win # take 15 win)"

definition sha_f :: "nat \<Rightarrow> u32 \<Rightarrow> u32 \<Rightarrow> u32 \<Rightarrow> u32" where
  "sha_f t b c d =
     (if t < 20 then (b AND c) OR (NOT b AND d)
      else if t < 40 then b XOR c XOR d
      else if t < 60 then (b AND c) OR (b AND d) OR (c AND d)
      else b XOR c XOR d)"

definition sha_k :: "nat \<Rightarrow> u32" where
  "sha_k t = (if t < 20 then 0x5A827999 else if t < 40 then 0x6ED9EBA1
              else if t < 60 then 0x8F1BBCDC else 0xCA62C1D6)"

fun sha_step :: "nat \<Rightarrow> u32 \<Rightarrow> sha_state \<Rightarrow> sha_state" where
  "sha_step t w (a, b, c, d, e) = (rotl 5 a + sha_f t b c d + e + sha_k t + w, a, rotl 30 b, c, d)"

fun sha_rounds :: "nat \<Rightarrow> u32 list \<Rightarrow> sha_state \<Rightarrow> sha_state" where
  "sha_rounds t [] s = s"
| "sha_rounds t (w # ws) s = sha_rounds (t + 1) ws (sha_step t w s)"

fun sha_add :: "sha_state \<Rightarrow> sha_state \<Rightarrow> sha_state" where
  "sha_add (h0, h1, h2, h3, h4) (a, b, c, d, e) = (h0 + a, h1 + b, h2 + c, h3 + d, h4 + e)"

definition sha_block :: "sha_state \<Rightarrow> u32 list \<Rightarrow> sha_state" where
  "sha_block h ws = sha_add h (sha_rounds 0 (ws @ schedule 64 (rev ws)) h)"

fun sha_blocks :: "sha_state \<Rightarrow> u32 list \<Rightarrow> sha_state" where
  "sha_blocks h [] = h"
| "sha_blocks h (w # ws) = sha_blocks (sha_block h (take 16 (w # ws))) (drop 16 (w # ws))"

fun sha_words :: "sha_state \<Rightarrow> u32 list" where
  "sha_words (a, b, c, d, e) = [a, b, c, d, e]"

definition sha1_words :: "string \<Rightarrow> u32 list" where
  "sha1_words str =
     sha_words (sha_blocks (0x67452301, 0xEFCDAB89, 0x98BADCFE, 0x10325476, 0xC3D2E1F0)
                  (bigEndian (padded str)))"

definition bytes32 :: "u32 \<Rightarrow> string" where
  "bytes32 x = [char_of (unat (drop_bit 24 x)), char_of (unat (drop_bit 16 x)),
                char_of (unat (drop_bit 8 x)), char_of (unat x)]"

text \<open>\<^verbatim>\<open>h := sha1.New(); io.WriteString(h, s); key := h.Sum(nil)\<close>: the digest, 20 bytes.\<close>

definition sha1 :: "string \<Rightarrow> string" where
  "sha1 str = concat (map bytes32 (sha1_words str))"

subsection \<open>The cache\<close>

text \<open>\<^verbatim>\<open>func urlStatus(uri string) error\<close>\<close>

definition urlStatus :: "string \<Rightarrow> world \<Rightarrow> error option \<times> world" where
  "urlStatus uri s =
     (case redisGet (''img/err/'' @ uri) s of
        (Some str, s1) \<Rightarrow> (Some (Recorded str), s1)
      | (None, s1) \<Rightarrow> (None, s1))"

text \<open>\<^verbatim>\<open>func generateKeyForCache(s string) string\<close>:
  \<^verbatim>\<open>fmt.Sprintf("%s/%x/%x/%x/%x", directory, key[0:1], key[1:2], key[2:3], key[3:])\<close>\<close>

definition generateKeyForCache :: "'img env \<Rightarrow> string \<Rightarrow> string" where
  "generateKeyForCache e str =
     directory e @ ''/'' @ hexBytes (take 1 (sha1 str)) @ ''/'' @ hexBytes (take 1 (drop 1 (sha1 str)))
       @ ''/'' @ hexBytes (take 1 (drop 2 (sha1 str))) @ ''/'' @ hexBytes (drop 3 (sha1 str))"

text \<open>\<^verbatim>\<open>func fetchImageFromCache(uri, variation string) (headers Headers, body []byte, ok bool)\<close>\<close>

definition fetchImageFromCache ::
  "'img env \<Rightarrow> string \<Rightarrow> string \<Rightarrow> world \<Rightarrow> (Headers \<times> string \<times> bool) \<times> world" where
  "fetchImageFromCache e uri variation s =
     (case redisHget (''img/'' @ variation @ ''/'' @ uri) ''type'' s of
        (None, s1) \<Rightarrow> ((zeroHeaders, [], False), s1)
      | (Some ctype, s1) \<Rightarrow>
          (case osStat (generateKeyForCache e uri) s1 of
             (None, s2) \<Rightarrow> ((zeroHeaders, [], False), s2)
           | (Some mtime, s2) \<Rightarrow>
               (case ReadFile (generateKeyForCache e uri) s2 of
                  (None, s3) \<Rightarrow>
                    ((zeroHeaders\<lparr>contentType := ctype, lastModified := rfc1123 e mtime\<rparr>, [], False), s3)
                | (Some b, s3) \<Rightarrow>
                    ((zeroHeaders\<lparr>contentType := ctype, lastModified := rfc1123 e mtime\<rparr>, b, True), s3))))"

text \<open>The goroutine that \<open>saveImageInCache\<close> starts.\<close>

definition saveImageInCache_go ::
  "'img env \<Rightarrow> string \<Rightarrow> string \<Rightarrow> Headers \<Rightarrow> string \<Rightarrow> world \<Rightarrow> world" where
  "saveImageInCache_go e uri variation headers body s =
     (case MkdirAll (pathDir (generateKeyForCache e (variation @ '':'' @ uri))) s of
        (False, s1) \<Rightarrow> s1
      | (True, s1) \<Rightarrow>
          (case WriteFile (generateKeyForCache e (variation @ '':'' @ uri)) body s1 of
             (False, s2) \<Rightarrow> s2
           | (True, s2) \<Rightarrow>
               redisHset (''img/'' @ variation @ ''/'' @ uri) ''type'' (contentType headers) s2))"

text \<open>\<^verbatim>\<open>func saveImageInCache(uri, variation string, headers Headers, body []byte)\<close>
  only starts the goroutine.\<close>

definition saveImageInCache :: "string \<Rightarrow> string \<Rightarrow> Headers \<Rightarrow> string \<Rightarrow> world \<Rightarrow> world" where
  "saveImageInCache uri variation headers body s =
     s\<lparr>spawned := spawned s @ [SaveImage uri variation headers body]\<rparr>"

text \<open>The goroutine that \<open>saveErrorInCache\<close> starts.\<close>

definition saveErrorInCache_go :: "string \<Rightarrow> error \<Rightarrow> world \<Rightarrow> world" where
  "saveErrorInCache_go uri err s =
     redisExpire (''img/err/'' @ uri) 600 (redisSet (''img/err/'' @ uri) (Error err) s)"

text \<open>\<^verbatim>\<open>func saveErrorInCache(uri string, err error)\<close>\<close>

definition saveErrorInCache :: "string \<Rightarrow> error \<Rightarrow> world \<Rightarrow> world" where
  "saveErrorInCache uri err s = s\<lparr>spawned := spawned s @ [SaveError uri err]\<rparr>"

text \<open>Running one goroutine to its end, and running all that were started, in the order
  they were started.\<close>

fun runTask :: "'img env \<Rightarrow> task \<Rightarrow> world \<Rightarrow> world" where
  "runTask e (SaveImage uri variation headers body) s = saveImageInCache_go e uri variation headers body s"
| "runTask e (SaveError uri err) s = saveErrorInCache_go uri err s"

definition runSpawned :: "'img env \<Rightarrow> world \<Rightarrow> world" where
  "runSpawned e s = fold (runTask e) (spawned s) (s\<lparr>spawned := []\<rparr>)"

subsection \<open>The origin\<close>

text \<open>\<^verbatim>\<open>func fetchImageFromServer(uri string) (headers Headers, body []byte, err error)\<close>.
  The slice expression \<^verbatim>\<open>contentType[0:5]\<close> panics when the string has fewer than
  five bytes.\<close>

definition fetchImageFromServer ::
  "'img env \<Rightarrow> string \<Rightarrow> world \<Rightarrow> (Headers \<times> string \<times> error option) outcome \<times> world" where
  "fetchImageFromServer e uri s =
     (case clientGet e uri of
        GetFailed m \<Rightarrow> (Return (zeroHeaders, [], Some (FetchError m)), logCall (OriginGet uri) s)
      | GetResponse res \<Rightarrow>
          if StatusCode res \<noteq> 200 then
            (Return (zeroHeaders, [], Some UnexpectedStatus),
             saveErrorInCache uri UnexpectedStatus (logCall (OriginGet uri) s))
          else (case bodyErr res of
             Some m \<Rightarrow> (Return (zeroHeaders, bodyRead res, Some (ReadError m)), logCall (OriginGet uri) s)
           | None \<Rightarrow>
               if ContentLength res > maxSize then
                 (Return (zeroHeaders, bodyRead res, Some ExceededMaxSize),
                  saveErrorInCache uri ExceededMaxSize (logCall (OriginGet uri) s))
               else if length (ContentTypeHeader res) < 5 then
                 (Panic ''runtime error: slice bounds out of range'', logCall (OriginGet uri) s)
               else if take 5 (ContentTypeHeader res) \<noteq> ''image'' then
                 (Return (zeroHeaders, bodyRead res, Some InvalidContentType),
                  saveErrorInCache uri InvalidContentType (logCall (OriginGet uri) s))
               else
                 (case urlStatus uri (logCall (OriginGet uri) s) of
                    (None, s1) \<Rightarrow>
                      (Return (zeroHeaders\<lparr>contentType := ContentTypeHeader res,
                                            lastModified := rfc1123 e (clock s)\<rparr>, bodyRead res, None),
                       saveImageInCache uri ''orig''
                         (zeroHeaders\<lparr>contentType := ContentTypeHeader res,
                                       lastModified := rfc1123 e (clock s)\<rparr>) (bodyRead res) s1)
                  | (Some _, s1) \<Rightarrow>
                      (Return (zeroHeaders\<lparr>contentType := ContentTypeHeader res,
                                            lastModified := rfc1123 e (clock s)\<rparr>, bodyRead res, None),
                       s1))))"

text \<open>\<^verbatim>\<open>func fetchImage(uri string) (headers Headers, body []byte, err error)\<close>\<close>

definition fetchImage ::
  "'img env \<Rightarrow> string \<Rightarrow> world \<Rightarrow> (Headers \<times> string \<times> error option) outcome \<times> world" where
  "fetchImage e uri s =
     (case urlStatus uri s of
        (Some err, s1) \<Rightarrow> (Return (zeroHeaders, [], Some err), s1)
      | (None, s1) \<Rightarrow>
          (case fetchImageFromCache e uri ''orig'' s1 of
             ((headers, body, True), s2) \<Rightarrow>
               (Return (headers\<lparr>cacheControl := ''public, max-age=600''\<rparr>, body, None), s2)
           | ((headers, body, False), s2) \<Rightarrow>
               (case fetchImageFromServer e uri s2 of
                  (Panic m, s3) \<Rightarrow> (Panic m, s3)
                | (Return (headers', body', err), s3) \<Rightarrow>
                    (Return (headers'\<lparr>cacheControl := ''public, max-age=600''\<rparr>, body', err), s3))))"

subsection \<open>Resizing\<close>

text \<open>\<^verbatim>\<open>func resizeImage(uri, origBody string, origHeaders Headers, width, height int)
  (headers Headers, body []byte, err error)\<close>. \<open>Resample\<close> and the encoder are given by the
  installation; either may panic (the encoder does on a nil image).\<close>

definition resizeImage ::
  "'img env \<Rightarrow> string \<Rightarrow> string \<Rightarrow> Headers \<Rightarrow> int \<Rightarrow> int \<Rightarrow> world
     \<Rightarrow> (Headers \<times> string \<times> error option) outcome \<times> world" where
  "resizeImage e uri origBody origHeaders width height s =
     (case imageDecode e origBody of
        Inl m \<Rightarrow> (Return (zeroHeaders, [], Some (DecodeError m)), logCall ImageDecode s)
      | Inr img \<Rightarrow>
          if width \<ge> imageDx e img \<and> height \<ge> imageDy e img then
            (Return (origHeaders, origBody, None), logCall ImageDecode s)
          else
            (let ratio = resizeRatio (imageDx e img) (imageDy e img) width height;
                 newWidth = newSize (intOfNonInt e) (imageDx e img) ratio;
                 newHeight = newSize (intOfNonInt e) (imageDy e img) ratio;
                 s1 = logCall (ResampleTo newWidth newHeight) (logCall ImageDecode s)
             in (case resample e img newWidth newHeight of
                   Panic m \<Rightarrow> (Panic m, s1)
                 | Return img' \<Rightarrow>
                     (case pngEncode e img' of
                        Panic m \<Rightarrow> (Panic m, logCall PngEncode s1)
                      | Return (Inl m) \<Rightarrow>
                          (Return (zeroHeaders, [], Some (EncodeError m)), logCall PngEncode s1)
                      | Return (Inr out) \<Rightarrow>
                          (Return (origHeaders\<lparr>contentType := ''image/png''\<rparr>, out, None),
                           logCall PngEncode s1)))))"

text \<open>\<^verbatim>\<open>func fetchResizedImage(uri string, width, height int) (headers Headers, body []byte, err error)\<close>.
  Its first test \<^verbatim>\<open>if err != nil\<close> is on the zero value of the named result and never
  holds.\<close>

definition fetchResizedImage ::
  "'img env \<Rightarrow> string \<Rightarrow> int \<Rightarrow> int \<Rightarrow> world \<Rightarrow> (Headers \<times> string \<times> error option) outcome \<times> world" where
  "fetchResizedImage e uri width height s =
     (case fetchImageFromCache e uri (''resize/'' @ showInt width @ ''/'' @ showInt height) s of
        ((headers, body, True), s1) \<Rightarrow> (Return (headers, body, None), s1)
      | ((headers, body, False), s1) \<Rightarrow>
          (case fetchImage e uri s1 of
             (Panic m, s2) \<Rightarrow> (Panic m, s2)
           | (Return (headers1, body1, Some err), s2) \<Rightarrow> (Return (headers1, body1, Some err), s2)
           | (Return (headers1, body1, None), s2) \<Rightarrow>
               (case resizeImage e uri body1 headers1 width height s2 of
                  (Panic m, s3) \<Rightarrow> (Panic m, s3)
                | (Return (headers2, body2, Some err), s3) \<Rightarrow> (Return (headers2, body2, Some err), s3)
                | (Return (headers2, body2, None), s3) \<Rightarrow>
                    (Return (headers2, body2, None),
                     saveImageInCache uri (''resize/'' @ showInt width @ ''/'' @ showInt height) headers2 body2 s3))))"

subsection \<open>The request boundary\<close>

text \<open>\<open>strconv.ParseInt(s, 10, 32)\<close>: an optional sign, then decimal digits read by the loop
  of \<open>ParseUint\<close>, which stops at the first byte that is no digit and at the first value above
  \<open>2\<^sup>3\<^sup>2 - 1\<close>; then the signed range check.\<close>

datatype num_error = ErrSyntax | ErrRange

definition isDigit :: "char \<Rightarrow> bool" where
  "isDigit c = (48 \<le> (of_char c :: nat) \<and> (of_char c :: nat) \<le> 57)"

definition digitVal :: "char \<Rightarrow> nat" where
  "digitVal c = of_char c - 48"

fun parseUintLoop :: "nat \<Rightarrow> string \<Rightarrow> num_error + nat" where
  "parseUintLoop n [] = Inr n"
| "parseUintLoop n (c # cs) =
     (if \<not> isDigit c then Inl ErrSyntax
      else if n \<ge> (2 ^ 64 - 1) div 10 + 1 then Inl ErrRange
      else if n * 10 + digitVal c > 2 ^ 32 - 1 then Inl ErrRange
      else parseUintLoop (n * 10 + digitVal c) cs)"

definition ParseUint :: "string \<Rightarrow> num_error + nat" where
  "ParseUint str = (if str = [] then Inl ErrSyntax else parseUintLoop 0 str)"

definition ParseInt :: "string \<Rightarrow> num_error + int" where
  "ParseInt str =
     (if str = [] then Inl ErrSyntax
      else (case ParseUint (if hd str = CHR ''+'' \<or> hd str = CHR ''-'' then tl str else str) of
              Inl err \<Rightarrow> Inl err
            | Inr un \<Rightarrow>
                if hd str \<noteq> CHR ''-'' \<and> un \<ge> 2 ^ 31 then Inl ErrRange
                else if hd str = CHR ''-'' \<and> un > 2 ^ 31 then Inl ErrRange
                else Inr (if hd str = CHR ''-'' then - int un else int un)))"

text \<open>\<open>hex.DecodeString\<close>: pairs of hex digits; an error on a byte that is no hex digit and
  on an odd length.\<close>

datatype hex_error = ErrLength | InvalidByteError char

definition fromHexChar :: "char \<Rightarrow> nat option" where
  "fromHexChar c =
     (if 48 \<le> (of_char c :: nat) \<and> (of_char c :: nat) \<le> 57 then Some (of_char c - 48)
      else if 97 \<le> (of_char c :: nat) \<and> (of_char c :: nat) \<le> 102 then Some (of_char c - 97 + 10)
      else if 65 \<le> (of_char c :: nat) \<and> (of_char c :: nat) \<le> 70 then Some (of_char c - 65 + 10)
      else None)"

fun DecodeString :: "string \<Rightarrow> hex_error + string" where
  "DecodeString [] = Inr []"
| "DecodeString [p] = (case fromHexChar p of None \<Rightarrow> Inl (InvalidByteError p) | Some a \<Rightarrow> Inl ErrLength)"
| "DecodeString (p # q # r) =
     (case fromHexChar p of
        None \<Rightarrow> Inl (InvalidByteError p)
      | Some a \<Rightarrow>
          (case fromHexChar q of
             None \<Rightarrow> Inl (InvalidByteError q)
           | Some b \<Rightarrow>
               (case DecodeString r of
                  Inl err \<Rightarrow> Inl err
                | Inr bs \<Rightarrow> Inr (char_of (a * 16 + b) # bs))))"

text \<open>The request as the handler reads it, and the reply it writes: the status, the headers
  the handler adds with \<^verbatim>\<open>w.Header().Add\<close>, and the bytes it writes.\<close>

record request =
  encoded_url :: string        \<comment> \<open>\<^verbatim>\<open>query.Get(":encoded_url")\<close>\<close>
  strWidth :: string           \<comment> \<open>\<^verbatim>\<open>query.Get(":width")\<close>\<close>
  strHeight :: string          \<comment> \<open>\<^verbatim>\<open>query.Get(":height")\<close>\<close>
  ifModifiedSince :: string    \<comment> \<open>\<^verbatim>\<open>r.Header.Get("If-Modified-Since")\<close>, empty when absent\<close>

record reply =
  status :: nat
  added :: "(string \<times> string) list"
  written :: string

text \<open>\<open>http.Error(w, msg, code)\<close> and \<open>http.NotFound(w, r)\<close>\<close>

definition httpError :: "string \<Rightarrow> nat \<Rightarrow> reply" where
  "httpError msg code = \<lparr>status = code, added = [], written = msg @ [CHR 0x0A]\<rparr>"

definition NotFound :: reply where
  "NotFound = httpError ''404 page not found'' 404"

text \<open>\<^verbatim>\<open>func Image(w http.ResponseWriter, r *http.Request, fn func())\<close>; \<open>fn\<close> is given as
  the reply it writes.\<close>

definition Image :: "'img env \<Rightarrow> reply \<Rightarrow> request \<Rightarrow> world \<Rightarrow> reply outcome \<times> world" where
  "Image e fn r s =
     (case ParseInt (strWidth r) of
        Inl _ \<Rightarrow> (Return (httpError ''Invalid parameters'' 400), s)
      | Inr width \<Rightarrow>
          (case ParseInt (strHeight r) of
             Inl _ \<Rightarrow> (Return (httpError ''Invalid parameters'' 400), s)
           | Inr height \<Rightarrow>
               if width * height > maxSize then
                 (Return (httpError ''Requested resized image exceeds max size'' 400), s)
               else
                 (case DecodeString (encoded_url r) of
                    Inl _ \<Rightarrow> (Return (httpError ''Invalid parameters'' 400), s)
                  | Inr uri \<Rightarrow>
                      (case fetchResizedImage e uri width height s of
                         (Panic m, s1) \<Rightarrow> (Panic m, s1)
                       | (Return (headers, body, Some err), s1) \<Rightarrow> (Return fn, s1)
                       | (Return (headers, body, None), s1) \<Rightarrow>
                           if lastModified headers = ifModifiedSince r then
                             (Return \<lparr>status = 304, added = [], written = []\<rparr>, s1)
                           else
                             (Return \<lparr>status = 200,
                                      added = [(''Content-Type'', contentType headers),
                                               (''Last-Modified'', lastModified headers),
                                               (''Cache-Control'', cacheControl headers)],
                                      written = body\<rparr>, s1)))))"

text \<open>\<^verbatim>\<open>func Img(w http.ResponseWriter, r *http.Request)\<close>\<close>

definition Img :: "'img env \<Rightarrow> request \<Rightarrow> world \<Rightarrow> reply outcome \<times> world" where
  "Img e r s = Image e NotFound r s"

subsection \<open>What the specification calls a base-10 integer\<close>

text \<open>An optional sign followed by at least one decimal digit, and the integer it denotes.\<close>

definition unsignedPart :: "string \<Rightarrow> string" where
  "unsignedPart str = (if str \<noteq> [] \<and> (hd str = CHR ''+'' \<or> hd str = CHR ''-'') then tl str else str)"

definition isBase10Integer :: "string \<Rightarrow> bool" where
  "isBase10Integer str = (unsignedPart str \<noteq> [] \<and> list_all isDigit (unsignedPart str))"

definition decimalValue :: "string \<Rightarrow> int" where
  "decimalValue str =
     (if str \<noteq> [] \<and> hd str = CHR ''-''
      then - int (foldl (\<lambda>n c. n * 10 + digitVal c) 0 (unsignedPart str))
      else int (foldl (\<lambda>n c. n * 10 + digitVal c) 0 (unsignedPart str)))"

definition isHexDigit :: "char \<Rightarrow> bool" where
  "isHexDigit c = (c \<in> set ''0123456789abcdefABCDEF'')"

subsection \<open>An example installation\<close>

text \<open>An installation with the cache under \<open>cache\<close>, a given origin, and codecs that know
  two images: the bytes \<open>img200x100\<close> decode to an image of 200 by 100 pixels and the
  bytes \<open>img9x9\<close> to one of 9 by 9. Images are their sizes; \<open>Resample\<close> gives the size
  asked for.\<close>

definition sampleEnv :: "(string \<Rightarrow> get_result) \<Rightarrow> (int \<times> int) env" where
  "sampleEnv origin =
     \<lparr>directory = ''cache'', clientGet = origin,
      imageDecode = (\<lambda>b. if b = ''img200x100'' then Inr (200, 100)
                         else if b = ''img9x9'' then Inr (9, 9)
                         else Inl ''image: unknown format''),
      imageDx = fst, imageDy = snd,
      resample = (\<lambda>img w h. Return (w, h)),
      pngEncode = (\<lambda>img. Return (Inr (''png'' @ showInt (fst img) @ ''x'' @ showInt (snd img)))),
      rfc1123 = showNat, intOfNonInt = 0\<rparr>"

text \<open>Origins: one that serves the image as JPEG, one that sends no Content-Type, and two
  that send one byte more than 5 MiB, the first declaring no Content-Length and the second
  declaring it.\<close>

definition jpegOrigin :: "string \<Rightarrow> get_result" where
  "jpegOrigin uri =
     GetResponse \<lparr>StatusCode = 200, ContentLength = 10, ContentTypeHeader = ''image/jpeg'',
                  bodyRead = ''img200x100'', bodyErr = None\<rparr>"

definition noTypeOrigin :: "string \<Rightarrow> get_result" where
  "noTypeOrigin uri =
     GetResponse \<lparr>StatusCode = 200, ContentLength = 10, ContentTypeHeader = [],
                  bodyRead = ''img200x100'', bodyErr = None\<rparr>"

definition bigBody :: string where
  "bigBody = replicate 5242881 (CHR ''x'')"

definition chunkedOrigin :: "string \<Rightarrow> get_result" where
  "chunkedOrigin uri =
     GetResponse \<lparr>StatusCode = 200, ContentLength = - 1, ContentTypeHeader = ''image/png'',
                  bodyRead = bigBody, bodyErr = None\<rparr>"

definition hugeOrigin :: "string \<Rightarrow> get_result" where
  "hugeOrigin uri =
     GetResponse \<lparr>StatusCode = 200, ContentLength = 5242881, ContentTypeHeader = ''image/png'',
                  bodyRead = bigBody, bodyErr = None\<rparr>"

text \<open>Worlds: nothing stored; and a cached resized variant of \<open>a\<close> together with a live
  failure recorded for \<open>a\<close>.\<close>

definition emptyWorld :: world where
  "emptyWorld = \<lparr>redis = Map.empty, disk = Map.empty, clock = 0, spawned = [], calls = []\<rparr>"


text \<open>Requests for \<open>a\<close> (hex \<open>61\<close>) at 50 by 50.\<close>

definition request_a_50_50 :: request where
  "request_a_50_50 = \<lparr>encoded_url = ''61'', strWidth = ''50'', strHeight = ''50'', ifModifiedSince = []\<rparr>"

definition request_a_50_50_since_0 :: request where
  "request_a_50_50_since_0 = \<lparr>encoded_url = ''61'', strWidth = ''50'', strHeight = ''50'', ifModifiedSince = ''0''\<rparr>"

subsection \<open>Vocabulary of the claims\<close>




section \<open>Evaluation rules\<close>

lemma bitlen_0: "bitlen 0 = 0"
  by (simp add: bitlen.simps)

lemma bitlen_1: "bitlen 1 = 1"
  by (simp add: bitlen.simps)

lemma bitlen_Suc_0: "bitlen (Suc 0) = 1"
  by (simp add: bitlen.simps)

lemma bitlen_Bit0: "bitlen (numeral (Num.Bit0 n)) = 1 + bitlen (numeral n)"
  by (subst bitlen.simps) simp

lemma bitlen_Bit1: "bitlen (numeral (Num.Bit1 n)) = 1 + bitlen (numeral n)"
  by (subst bitlen.simps) simp

lemma showNat_numeral:
  "showNat (numeral k) =
     (if (numeral k :: nat) < 10 then [hexDigit (numeral k)]
      else showNat (numeral k div 10) @ [hexDigit (numeral k mod 10)])"
  by (subst showNat.simps) simp

lemma showNat_0: "showNat 0 = ''0''"
  by (simp add: showNat.simps hexDigit_def)

lemma showNat_1: "showNat 1 = ''1''"
  by (simp add: showNat.simps hexDigit_def)

lemmas float_eval = resizeRatio_def newSize_def f64_of_int_def roundMag_def roundPos_def flog2_def
  pow2_def roundHalfEven_def f64_Max_def f64_Min_def f64_less_def
  bitlen_0 bitlen_1 bitlen_Suc_0 bitlen_Bit0 bitlen_Bit1

lemmas parse_eval = ParseInt_def ParseUint_def isDigit_def digitVal_def fromHexChar_def char_of_def
  bit_Suc_0_iff

lemma zeros_numeral: "zeros (numeral k) = 0 # zeros (pred_numeral k)"
  by (simp add: numeral_eq_Suc)

lemma schedule_numeral:
  "schedule (numeral k) win = nextWord win # schedule (pred_numeral k) (nextWord win # take 15 win)"
  by (simp add: numeral_eq_Suc)

lemmas sha_eval = sha1_words_def padded_def lengthBytes_def zeros_numeral schedule_numeral
  nextWord_def rotl_def sha_block_def sha_f_def sha_k_def

text \<open>The digests of the three strings that the examples hash, as \<open>sha1sum\<close> prints them.\<close>

lemma sha1_words_a:
  "sha1_words ''a'' = [0x86f7e437, 0xfaa5a7fc, 0xe15d1ddc, 0xb9eaeaea, 0x377667b8]"
  by (simp add: sha_eval)

lemma sha1_words_orig_a:
  "sha1_words ''orig:a'' = [0x1bc2a19a, 0xffeb8074, 0xb77e1667, 0x67af3824, 0xa98a64d6]"
  by (simp add: sha_eval)

lemma sha1_words_resize_a:
  "sha1_words ''resize/50/50:a'' = [0xbbf686ce, 0x3fbd4bc0, 0x5867e4fc, 0x34b8d85d, 0x30ff26d1]"
  by (simp add: sha_eval)

lemmas key_parts = generateKeyForCache_def sha1_def bytes32_def hexBytes_def hexDigit_def
  char_of_def bit_Suc_0_iff

lemma key_a:
  "generateKeyForCache e ''a'' = directory e @ ''/86/f7/e4/37faa5a7fce15d1ddcb9eaeaea377667b8''"
  by (simp add: key_parts sha1_words_a)

lemma key_orig_a:
  "generateKeyForCache e ''orig:a'' = directory e @ ''/1b/c2/a1/9affeb8074b77e166767af3824a98a64d6''"
  by (simp add: key_parts sha1_words_orig_a)

lemma key_resize_a:
  "generateKeyForCache e ''resize/50/50:a'' = directory e @ ''/bb/f6/86/ce3fbd4bc05867e4fc34b8d85d30ff26d1''"
  by (simp add: key_parts sha1_words_resize_a)

lemmas key_eval = key_a key_orig_a key_resize_a hexDigit_def

lemmas store_eval = redisLookup_def redisGet_def redisHget_def redisSet_def redisExpire_def
  redisHset_def osStat_def ReadFile_def MkdirAll_def pathDir_def WriteFile_def logCall_def

lemmas prog_eval = urlStatus_def fetchImageFromCache_def saveImageInCache_go_def
  saveImageInCache_def saveErrorInCache_go_def saveErrorInCache_def runSpawned_def
  fetchImageFromServer_def fetchImage_def resizeImage_def fetchResizedImage_def Image_def Img_def
  httpError_def NotFound_def zeroHeaders_def maxSize_def Let_def

lemmas sample_eval = request_a_50_50_def request_a_50_50_since_0_def emptyWorld_def sampleEnv_def
  jpegOrigin_def noTypeOrigin_def parse_eval key_eval store_eval prog_eval showInt_def showNat_numeral
  showNat_0 showNat_1 float_eval


section \<open>Facts about the parts\<close>




lemma parseUintLoop_Inr:
  "parseUintLoop n cs = Inr m \<Longrightarrow>
     list_all isDigit cs \<and> m = foldl (\<lambda>n c. n * 10 + digitVal c) n cs"
  by (induction cs arbitrary: n) (auto split: if_splits)

lemma ParseInt_Inr:
  assumes "ParseInt str = Inr v"
  shows "isBase10Integer str \<and> v = decimalValue str"
proof -
  from assms have ne: "str \<noteq> []"
    by (auto simp add: ParseInt_def)
  from assms ne obtain un where un: "ParseUint (unsignedPart str) = Inr un"
    and v: "v = (if hd str = CHR ''-'' then - int un else int un)"
    by (auto simp add: ParseInt_def unsignedPart_def split: sum.splits if_splits)
  from un have u: "unsignedPart str \<noteq> []" and l: "parseUintLoop 0 (unsignedPart str) = Inr un"
    by (auto simp add: ParseUint_def split: if_splits)
  from parseUintLoop_Inr [OF l] u v ne show ?thesis
    by (simp add: isBase10Integer_def decimalValue_def)
qed

lemma fromHexChar_isHexDigit:
  assumes "fromHexChar c = Some a"
  shows "isHexDigit c"
proof -
  define n :: nat where "n = of_char c"
  have c: "c = char_of n"
    by (simp add: n_def)
  from assms have "(48 \<le> n \<and> n \<le> 57) \<or> (97 \<le> n \<and> n \<le> 102) \<or> (65 \<le> n \<and> n \<le> 70)"
    by (simp add: fromHexChar_def n_def split: if_splits)
  then have "n = 48 \<or> n = 49 \<or> n = 50 \<or> n = 51 \<or> n = 52 \<or> n = 53 \<or> n = 54 \<or> n = 55 \<or> n = 56 \<or> n = 57
      \<or> n = 97 \<or> n = 98 \<or> n = 99 \<or> n = 100 \<or> n = 101 \<or> n = 102
      \<or> n = 65 \<or> n = 66 \<or> n = 67 \<or> n = 68 \<or> n = 69 \<or> n = 70"
    by arith
  then show ?thesis
    unfolding c isHexDigit_def
    by (elim disjE) (simp_all add: char_of_def bit_Suc_0_iff)
qed

lemma DecodeString_Inr:
  "DecodeString str = Inr bs \<Longrightarrow> list_all isHexDigit str"
  by (induction str arbitrary: bs rule: DecodeString.induct)
     (auto split: option.splits sum.splits dest: fromHexChar_isHexDigit)

subsection \<open>Rounding to double precision\<close>




























section \<open>The claims\<close>

subsection \<open>C1: a put followed by a get\<close>

text \<open>
  C1 says that the path \<open>put\<close> writes is the path \<open>get\<close> reads, so that a second identical
  request, made after the writes of the first have been done, fetches nothing from the
  origin and resizes nothing. In img.go, \<open>saveImageInCache\<close> writes the file named by the
  digest of \<open>variation + ":" + uri\<close> and \<open>fetchImageFromCache\<close> reads the file named by the
  digest of \<open>uri\<close>. For the URL \<open>a\<close> at 50 by 50, on empty stores: the goroutine of
  \<open>saveImageInCache\<close> writes \<open>cache/bb/f6/86/ce\<dots>\<close>, the lookup that follows it stats
  \<open>cache/86/f7/e4/37\<dots>\<close> and misses; and the second of two requests, made after both
  goroutines of the first have run, calls the origin and resamples again.
\<close>

theorem C1_second_request_fetches_and_resizes_again:
  "disk (saveImageInCache_go (sampleEnv jpegOrigin) ''a'' ''resize/50/50''
           \<lparr>contentType = ''image/png'', lastModified = ''0'', cacheControl = []\<rparr> ''png50x25'' emptyWorld)
        ''cache/bb/f6/86/ce3fbd4bc05867e4fc34b8d85d30ff26d1'' = Some (RegFile ''png50x25'' 0)
   \<and> fst (fetchImageFromCache (sampleEnv jpegOrigin) ''a'' ''resize/50/50''
          (saveImageInCache_go (sampleEnv jpegOrigin) ''a'' ''resize/50/50''
             \<lparr>contentType = ''image/png'', lastModified = ''0'', cacheControl = []\<rparr> ''png50x25'' emptyWorld))
        = (zeroHeaders, [], False)
   \<and> calls (snd (Img (sampleEnv jpegOrigin) request_a_50_50
         ((runSpawned (sampleEnv jpegOrigin)
            (snd (Img (sampleEnv jpegOrigin) request_a_50_50 emptyWorld)))\<lparr>calls := []\<rparr>)))
        = [RedisRead ''img/resize/50/50/a'', DiskStat ''cache/86/f7/e4/37faa5a7fce15d1ddcb9eaeaea377667b8'',
           RedisRead ''img/err/a'', RedisRead ''img/orig/a'',
           DiskStat ''cache/86/f7/e4/37faa5a7fce15d1ddcb9eaeaea377667b8'',
           OriginGet ''a'', RedisRead ''img/err/a'', ImageDecode, ResampleTo 50 25, PngEncode]"
proof (intro conjI)
  show "disk (saveImageInCache_go (sampleEnv jpegOrigin) ''a'' ''resize/50/50''
           \<lparr>contentType = ''image/png'', lastModified = ''0'', cacheControl = []\<rparr> ''png50x25'' emptyWorld)
        ''cache/bb/f6/86/ce3fbd4bc05867e4fc34b8d85d30ff26d1'' = Some (RegFile ''png50x25'' 0)"
    by (simp add: sample_eval)
  show "fst (fetchImageFromCache (sampleEnv jpegOrigin) ''a'' ''resize/50/50''
          (saveImageInCache_go (sampleEnv jpegOrigin) ''a'' ''resize/50/50''
             \<lparr>contentType = ''image/png'', lastModified = ''0'', cacheControl = []\<rparr> ''png50x25'' emptyWorld))
        = (zeroHeaders, [], False)"
    by (simp add: sample_eval)
  show "calls (snd (Img (sampleEnv jpegOrigin) request_a_50_50
         ((runSpawned (sampleEnv jpegOrigin)
            (snd (Img (sampleEnv jpegOrigin) request_a_50_50 emptyWorld)))\<lparr>calls := []\<rparr>)))
        = [RedisRead ''img/resize/50/50/a'', DiskStat ''cache/86/f7/e4/37faa5a7fce15d1ddcb9eaeaea377667b8'',
           RedisRead ''img/err/a'', RedisRead ''img/orig/a'',
           DiskStat ''cache/86/f7/e4/37faa5a7fce15d1ddcb9eaeaea377667b8'',
           OriginGet ''a'', RedisRead ''img/err/a'', ImageDecode, ResampleTo 50 25, PngEncode]"
    by (simp add: sample_eval)
qed

subsection \<open>C2: the negative cache and the cached variant\<close>




subsection \<open>C3: the Content-Type check\<close>

text \<open>
  C3 says that a response with status 200 whose Content-Type is absent, empty or shorter
  than five bytes is refused as an invalid content type and that the check never faults.
  In img.go the check is the slice expression \<^verbatim>\<open>contentType[0:5]\<close>, which panics on a
  string of fewer than five bytes: for an origin that answers 200 without a Content-Type,
  \<open>fetchImageFromServer\<close> panics, and so does the request.
\<close>

theorem C3_short_content_type_panics:
  "fst (fetchImageFromServer (sampleEnv noTypeOrigin) ''a'' emptyWorld)
     = Panic ''runtime error: slice bounds out of range''
   \<and> fst (Img (sampleEnv noTypeOrigin) request_a_50_50 emptyWorld)
     = Panic ''runtime error: slice bounds out of range''"
  by (simp add: sample_eval)

subsection \<open>C4: the size ceiling\<close>

text \<open>
  C4 says that a payload of more than 5 MiB fails with ExceededMaxSize and is never
  stored, whether or not the origin declares a Content-Length. In img.go the test is
  \<^verbatim>\<open>res.ContentLength > maxSize\<close>, on the declared length, which is \<open>-1\<close> when the origin
  declares none; the length of the body is not looked at. A body of 5 MiB and one byte
  with no declared length is accepted and its goroutine writes it to the cache.
\<close>

theorem C4_undeclared_length_is_stored:
  "int (length bigBody) > maxSize
   \<and> fst (fetchImageFromServer (sampleEnv chunkedOrigin) ''a'' emptyWorld)
       = Return (\<lparr>contentType = ''image/png'', lastModified = ''0'', cacheControl = []\<rparr>, bigBody, None)
   \<and> disk (runSpawned (sampleEnv chunkedOrigin) (snd (fetchImageFromServer (sampleEnv chunkedOrigin) ''a'' emptyWorld)))
        ''cache/1b/c2/a1/9affeb8074b77e166767af3824a98a64d6'' = Some (RegFile bigBody 0)"
proof (intro conjI)
  show "int (length bigBody) > maxSize"
    by (simp add: bigBody_def maxSize_def)
  show "fst (fetchImageFromServer (sampleEnv chunkedOrigin) ''a'' emptyWorld)
       = Return (\<lparr>contentType = ''image/png'', lastModified = ''0'', cacheControl = []\<rparr>, bigBody, None)"
    by (simp add: sample_eval chunkedOrigin_def)
  show "disk (runSpawned (sampleEnv chunkedOrigin) (snd (fetchImageFromServer (sampleEnv chunkedOrigin) ''a'' emptyWorld)))
        ''cache/1b/c2/a1/9affeb8074b77e166767af3824a98a64d6'' = Some (RegFile bigBody 0)"
    by (simp add: sample_eval chunkedOrigin_def)
qed

text \<open>
  C4 as amended: when the origin answers 200, the body is read and the declared
  Content-Length is above 5 MiB, the fetch fails with ExceededMaxSize; it writes nothing
  to the cache directory, and the only goroutine it starts records the failure, which
  writes nothing to the cache directory either.
\<close>

theorem C4_declared_length_ceiling:
  assumes "clientGet e uri = GetResponse res" and "StatusCode res = 200" and "bodyErr res = None"
    and "ContentLength res > maxSize"
  shows "fst (fetchImageFromServer e uri s) = Return (zeroHeaders, bodyRead res, Some ExceededMaxSize)
    \<and> spawned (snd (fetchImageFromServer e uri s)) = spawned s @ [SaveError uri ExceededMaxSize]
    \<and> disk (snd (fetchImageFromServer e uri s)) = disk s
    \<and> disk (runTask e (SaveError uri ExceededMaxSize) s') = disk s'"
  using assms
  by (simp add: fetchImageFromServer_def saveErrorInCache_def logCall_def saveErrorInCache_go_def
      redisExpire_def redisSet_def split: option.splits prod.splits)

theorem C4_declared_length_ceiling_witness:
  "clientGet (sampleEnv hugeOrigin) ''a'' = GetResponse \<lparr>StatusCode = 200, ContentLength = 5242881, ContentTypeHeader = ''image/png'',
                  bodyRead = bigBody, bodyErr = None\<rparr>
   \<and> (5242881 :: int) > maxSize
   \<and> fst (fetchImageFromServer (sampleEnv hugeOrigin) ''a'' emptyWorld) = Return (zeroHeaders, bigBody, Some ExceededMaxSize)
   \<and> spawned (snd (fetchImageFromServer (sampleEnv hugeOrigin) ''a'' emptyWorld)) = [SaveError ''a'' ExceededMaxSize]
   \<and> disk (snd (fetchImageFromServer (sampleEnv hugeOrigin) ''a'' emptyWorld)) = Map.empty"
  using C4_declared_length_ceiling [of "sampleEnv hugeOrigin" "''a''" "\<lparr>StatusCode = 200, ContentLength = 5242881, ContentTypeHeader = ''image/png'',
                  bodyRead = bigBody, bodyErr = None\<rparr>" emptyWorld emptyWorld]
  by (simp add: sampleEnv_def hugeOrigin_def maxSize_def emptyWorld_def)

subsection \<open>C5: which failures are recorded\<close>


subsection \<open>C6: no upscaling\<close>

text \<open>
  C6: when the decoded image is no wider and no higher than the target, \<open>resizeImage\<close>
  returns the original bytes and the original headers, content type included, unchanged;
  it calls neither \<open>Resample\<close> nor the encoder.
\<close>

theorem C6_no_upscale:
  assumes "imageDecode e origBody = Inr img"
    and "imageDx e img \<le> width" and "imageDy e img \<le> height"
  shows "resizeImage e uri origBody origHeaders width height s
           = (Return (origHeaders, origBody, None), logCall ImageDecode s)"
  using assms by (simp add: resizeImage_def)

theorem C6_no_upscale_witness:
  "imageDecode (sampleEnv jpegOrigin) ''img200x100'' = Inr (200, 100)
   \<and> imageDx (sampleEnv jpegOrigin) (200, 100) \<le> 200
   \<and> imageDy (sampleEnv jpegOrigin) (200, 100) \<le> 300
   \<and> resizeImage (sampleEnv jpegOrigin) ''a'' ''img200x100'' zeroHeaders 200 300 emptyWorld
        = (Return (zeroHeaders, ''img200x100'', None), logCall ImageDecode emptyWorld)"
  using C6_no_upscale [of "sampleEnv jpegOrigin" "''img200x100''" "(200, 100)" 200 300 "''a''"
      zeroHeaders emptyWorld]
  by (simp add: sampleEnv_def)

subsection \<open>C7: the new dimensions\<close>




subsection \<open>C8: validation at the boundary\<close>

text \<open>
  C8: when the width or the height is not a base-10 integer, or their product is above
  \<open>5 * 2\<^sup>2\<^sup>0\<close>, or the encoded URL has a byte that is no hex digit, the handler replies
  400 and returns the world as it was: no call logged, no goroutine started, nothing
  stored.
\<close>

theorem C8_boundary_validation:
  assumes "\<not> isBase10Integer (strWidth r) \<or> \<not> isBase10Integer (strHeight r)
           \<or> decimalValue (strWidth r) * decimalValue (strHeight r) > 5 * 2 ^ 20
           \<or> (\<exists>c \<in> set (encoded_url r). \<not> isHexDigit c)"
  shows "\<exists>msg. Image e fn r s = (Return (httpError msg 400), s)"
proof (cases "ParseInt (strWidth r)")
  case (Inl err)
  then show ?thesis
    by (simp add: Image_def) blast
next
  case w: (Inr width)
  show ?thesis
  proof (cases "ParseInt (strHeight r)")
    case (Inl err)
    with w show ?thesis
      by (simp add: Image_def) blast
  next
    case h: (Inr height)
    show ?thesis
    proof (cases "width * height > maxSize")
      case True
      with w h show ?thesis
        by (simp add: Image_def) blast
    next
      case False
      with assms ParseInt_Inr [OF w] ParseInt_Inr [OF h]
      have "\<exists>c \<in> set (encoded_url r). \<not> isHexDigit c"
        by (auto simp add: maxSize_def)
      then obtain err where "DecodeString (encoded_url r) = Inl err"
        using DecodeString_Inr [of "encoded_url r"]
        by (cases "DecodeString (encoded_url r)") (auto simp add: list_all_iff)
      with w h False show ?thesis
        by (simp add: Image_def) blast
    qed
  qed
qed

theorem C8_boundary_validation_witness:
  "\<not> isBase10Integer ''12x''
   \<and> (\<exists>msg. Image (sampleEnv jpegOrigin) NotFound
         \<lparr>encoded_url = ''61'', strWidth = ''12x'', strHeight = ''50'', ifModifiedSince = []\<rparr> emptyWorld
       = (Return (httpError msg 400), emptyWorld))
   \<and> decimalValue ''4000'' * decimalValue ''4000'' > 5 * 2 ^ 20
   \<and> (\<exists>msg. Image (sampleEnv jpegOrigin) NotFound
         \<lparr>encoded_url = ''61'', strWidth = ''4000'', strHeight = ''4000'', ifModifiedSince = []\<rparr> emptyWorld
       = (Return (httpError msg 400), emptyWorld))
   \<and> \<not> isHexDigit (CHR ''z'')
   \<and> (\<exists>msg. Image (sampleEnv jpegOrigin) NotFound
         \<lparr>encoded_url = ''zz'', strWidth = ''50'', strHeight = ''50'', ifModifiedSince = []\<rparr> emptyWorld
       = (Return (httpError msg 400), emptyWorld))"
proof -
  have a: "\<not> isBase10Integer ''12x''"
    by (simp add: isBase10Integer_def unsignedPart_def isDigit_def)
  have b: "decimalValue ''4000'' * decimalValue ''4000'' > 5 * 2 ^ 20"
    by (simp add: decimalValue_def unsignedPart_def digitVal_def)
  have c: "\<not> isHexDigit (CHR ''z'')"
    by (simp add: isHexDigit_def)
  show ?thesis
    using a b c
      C8_boundary_validation [of "\<lparr>encoded_url = ''61'', strWidth = ''12x'', strHeight = ''50'', ifModifiedSince = []\<rparr>"
        "sampleEnv jpegOrigin" NotFound emptyWorld]
      C8_boundary_validation [of "\<lparr>encoded_url = ''61'', strWidth = ''4000'', strHeight = ''4000'', ifModifiedSince = []\<rparr>"
        "sampleEnv jpegOrigin" NotFound emptyWorld]
      C8_boundary_validation [of "\<lparr>encoded_url = ''zz'', strWidth = ''50'', strHeight = ''50'', ifModifiedSince = []\<rparr>"
        "sampleEnv jpegOrigin" NotFound emptyWorld]
    by simp
qed

subsection \<open>C9: the conditional reply\<close>

text \<open>
  C9: when the parameters pass validation and the pipeline succeeds, the handler replies
  304 with no headers of its own and no body if the request's If-Modified-Since is the
  same string as the Last-Modified computed by the pipeline; otherwise it sends the bytes
  with the headers Content-Type, Last-Modified and Cache-Control.
\<close>

theorem C9_conditional_reply:
  assumes "ParseInt (strWidth r) = Inr width" and "ParseInt (strHeight r) = Inr height"
    and "\<not> width * height > maxSize" and "DecodeString (encoded_url r) = Inr uri"
    and "fetchResizedImage e uri width height s = (Return (headers, body, None), s1)"
  shows "Image e fn r s =
           (if ifModifiedSince r = lastModified headers
            then (Return \<lparr>status = 304, added = [], written = []\<rparr>, s1)
            else (Return \<lparr>status = 200,
                           added = [(''Content-Type'', contentType headers),
                                    (''Last-Modified'', lastModified headers),
                                    (''Cache-Control'', cacheControl headers)],
                           written = body\<rparr>, s1))"
  using assms by (auto simp add: Image_def)

theorem C9_conditional_reply_witness:
  "ParseInt (strWidth request_a_50_50_since_0) = Inr 50
   \<and> ParseInt (strHeight request_a_50_50_since_0) = Inr 50
   \<and> \<not> 50 * 50 > maxSize
   \<and> DecodeString (encoded_url request_a_50_50_since_0) = Inr ''a''
   \<and> fst (fetchResizedImage (sampleEnv jpegOrigin) ''a'' 50 50 emptyWorld)
        = Return (\<lparr>contentType = ''image/png'', lastModified = ''0'', cacheControl = ''public, max-age=600''\<rparr>,
                  ''png50x25'', None)
   \<and> Image (sampleEnv jpegOrigin) NotFound request_a_50_50_since_0 emptyWorld
        = (Return \<lparr>status = 304, added = [], written = []\<rparr>,
           snd (fetchResizedImage (sampleEnv jpegOrigin) ''a'' 50 50 emptyWorld))
   \<and> Image (sampleEnv jpegOrigin) NotFound request_a_50_50 emptyWorld
        = (Return \<lparr>status = 200,
                    added = [(''Content-Type'', ''image/png''), (''Last-Modified'', ''0''),
                             (''Cache-Control'', ''public, max-age=600'')],
                    written = ''png50x25''\<rparr>,
           snd (fetchResizedImage (sampleEnv jpegOrigin) ''a'' 50 50 emptyWorld))"
proof -
  have w: "ParseInt ''50'' = Inr 50"
    by (simp add: parse_eval)
  have m: "\<not> (50 :: int) * 50 > maxSize"
    by (simp add: maxSize_def)
  have u: "DecodeString ''61'' = Inr ''a''"
    by (simp add: parse_eval)
  have f: "fst (fetchResizedImage (sampleEnv jpegOrigin) ''a'' 50 50 emptyWorld)
        = Return (\<lparr>contentType = ''image/png'', lastModified = ''0'', cacheControl = ''public, max-age=600''\<rparr>,
                  ''png50x25'', None)"
    by (simp add: sample_eval)
  then have p: "fetchResizedImage (sampleEnv jpegOrigin) ''a'' 50 50 emptyWorld
        = (Return (\<lparr>contentType = ''image/png'', lastModified = ''0'', cacheControl = ''public, max-age=600''\<rparr>,
                  ''png50x25'', None), snd (fetchResizedImage (sampleEnv jpegOrigin) ''a'' 50 50 emptyWorld))"
    by (metis prod.collapse)
  have a: "Image (sampleEnv jpegOrigin) NotFound request_a_50_50_since_0 emptyWorld
        = (Return \<lparr>status = 304, added = [], written = []\<rparr>,
           snd (fetchResizedImage (sampleEnv jpegOrigin) ''a'' 50 50 emptyWorld))"
    using C9_conditional_reply [of request_a_50_50_since_0 50 50 "''a''" "sampleEnv jpegOrigin"
        emptyWorld _ _ _ NotFound, OF _ _ m _ p] w u
    by (simp add: request_a_50_50_since_0_def)
  have b: "Image (sampleEnv jpegOrigin) NotFound request_a_50_50 emptyWorld
        = (Return \<lparr>status = 200,
                    added = [(''Content-Type'', ''image/png''), (''Last-Modified'', ''0''),
                             (''Cache-Control'', ''public, max-age=600'')],
                    written = ''png50x25''\<rparr>,
           snd (fetchResizedImage (sampleEnv jpegOrigin) ''a'' 50 50 emptyWorld))"
    using C9_conditional_reply [of request_a_50_50 50 50 "''a''" "sampleEnv jpegOrigin"
        emptyWorld _ _ _ NotFound, OF _ _ m _ p] w u
    by (simp add: request_a_50_50_def)
  show ?thesis
    using w m u f a b by (simp add: request_a_50_50_since_0_def)
qed

subsection \<open>C10: negative dimensions\<close>

text \<open>
  C10: the request for \<open>a\<close> with width \<open>-1\<close> and height \<open>-1\<close> passes validation: both
  strings parse, their product is 1, and the pipeline is called with the dimensions
  \<open>(-1, -1)\<close>; whatever the pipeline does, the reply is not a 400.
\<close>

theorem C10_negative_dimensions_pass:
  "ParseInt ''-1'' = Inr (- 1)
   \<and> Img e \<lparr>encoded_url = ''61'', strWidth = ''-1'', strHeight = ''-1'', ifModifiedSince = ims\<rparr> s =
     (case fetchResizedImage e ''a'' (- 1) (- 1) s of
        (Panic m, s1) \<Rightarrow> (Panic m, s1)
      | (Return (headers, body, Some err), s1) \<Rightarrow> (Return NotFound, s1)
      | (Return (headers, body, None), s1) \<Rightarrow>
          if lastModified headers = ims then (Return \<lparr>status = 304, added = [], written = []\<rparr>, s1)
          else (Return \<lparr>status = 200,
                         added = [(''Content-Type'', contentType headers),
                                  (''Last-Modified'', lastModified headers),
                                  (''Cache-Control'', cacheControl headers)],
                         written = body\<rparr>, s1))
   \<and> (case fst (Img e \<lparr>encoded_url = ''61'', strWidth = ''-1'', strHeight = ''-1'', ifModifiedSince = ims\<rparr> s) of
         Return rep \<Rightarrow> status rep \<noteq> 400
       | Panic m \<Rightarrow> True)"
  by (auto simp add: Img_def Image_def parse_eval maxSize_def NotFound_def httpError_def
      split: prod.splits outcome.splits option.splits)

end
